theory Spec2Isabelle
  imports Main "HOL-Library.Word" "HOL-Library.Sublist"
begin

section \<open>Data model of \<open>src/engine.c\<close>\<close>

text \<open>
  The build modelled is the one the file compiles to as it stands: \<open>STANDALONE_SERVER\<close>
  undefined (rendering, audio and input are present) and the host-driven main loop
  (\<open>engine_loop\<close> is the callback handed to \<open>emscripten_set_main_loop_arg\<close>).

  A C \<open>int\<close> and SDL's \<open>Uint32\<close> are 32-bit words. Unsigned arithmetic wraps in C; the
  signed additions of the accumulators are taken with their two's-complement result
  (signed overflow is undefined in C, so the model says more than C promises there and
  the same where no overflow happens). Signed comparisons are \<open><s\<close> and \<open>\<le>s\<close>.
\<close>

type_synonym c_int = "32 word"
type_synonym Uint32 = "32 word"

text \<open>C's logical negation \<open>!x\<close> on an \<open>int\<close>.\<close>

definition c_not :: "c_int \<Rightarrow> c_int" where
  "c_not x = (if x = 0 then 1 else 0)"

subsection \<open>Input events\<close>

text \<open>The fields of \<open>SDL_Event\<close> that \<open>engine_loop\<close> reads: the type, and for a key
  press both the key symbol and the scancode, for a window event its identifier.\<close>

datatype SDL_Keycode =
    SDLK_F1 | SDLK_F5 | SDLK_F6 | SDLK_SPACE | SDLK_TAB | SDLK_BACKQUOTE | SDLK_ESCAPE
  | SDLK_other nat

datatype SDL_Scancode = SDL_SCANCODE_GRAVE | SDL_SCANCODE_other nat

datatype SDL_WindowEventID =
    SDL_WINDOWEVENT_MINIMIZED | SDL_WINDOWEVENT_HIDDEN | SDL_WINDOWEVENT_MAXIMIZED
  | SDL_WINDOWEVENT_RESTORED | SDL_WINDOWEVENT_SHOWN | SDL_WINDOWEVENT_other nat

datatype SDL_Event =
    SDL_QUIT
  | SDL_KEYDOWN SDL_Keycode SDL_Scancode
  | SDL_MOUSEMOTION
  | SDL_WINDOWEVENT SDL_WindowEventID
  | SDL_other nat

subsection \<open>Calls into the collaborating subsystems\<close>

text \<open>
  Every call that \<open>engine.c\<close> makes into another module and that can act on that module
  is a constructor here; the engine state keeps the list of calls made, in order. The
  arguments that a claim needs are kept (the sink handed to \<open>audio_init\<close>, the event handed
  to a handler, the file name handed to an encoder, the argument of \<open>SDL_ShowCursor\<close>, the
  text of a log line); the video mode handed to \<open>video_init\<close> and the \<open>setting / 10.0f\<close>
  volumes are not.
\<close>

datatype call =
    Video_init | Audio_init "string option" | Sound_set_volume | Music_set_volume
  | Sounds_loader_init | Lang_init | Fonts_init | Altpals_init | Console_init
  | Console_close | Altpals_close | Fonts_close | Lang_close | Sounds_loader_close
  | Audio_close | Video_close
  | INFO string | DEBUG string | PERROR string
  | Emscripten_cancel_main_loop
  | SDL_ShowCursor c_int
  | Video_get_state | Video_reinit_renderer
  | Console_window_close | Console_window_open
  | Console_event SDL_Event | Game_state_handle_event SDL_Event
  | Game_state_tick_controllers
  | Game_state_static_tick | Console_tick | Video_tick
  | Game_state_dynamic_tick
  | Audio_render
  | Video_render_prepare | Game_state_render | Game_state_debug | Console_render
  | Video_render_finish
  | Video_screenshot | Image_write_png string | Image_write_tga string | Image_free
  | SDL_Delay nat
  | Game_state_create | Emscripten_set_main_loop_arg | Game_state_free

text \<open>
  The collaborators (video, audio, loaders, console, game state) are not among the
  sources. Their joint state is a type parameter \<open>'w\<close>, and an environment gives, for
  each call, its effect on that state and its \<open>int\<close> result (for \<open>video_get_state\<close> the
  value it stores in \<open>check_fs\<close>), so that nothing is assumed of them. The functions that
  only report (\<open>game_state_is_running\<close>,
  \<open>game_state_ms_per_dyntick\<close>, \<open>console_window_is_open\<close>, \<open>image_supports_png\<close>,
  \<open>audio_is_sink_available\<close>, \<open>audio_get_first_sink_name\<close>) read that state.
\<close>

record 'w env =
  ext :: "call \<Rightarrow> 'w \<Rightarrow> 'w"
  ret :: "call \<Rightarrow> 'w \<Rightarrow> c_int"
  game_state_is_running :: "'w \<Rightarrow> c_int"
  game_state_ms_per_dyntick :: "'w \<Rightarrow> c_int"
  console_window_is_open :: "'w \<Rightarrow> c_int"
  image_supports_png :: "'w \<Rightarrow> c_int"
  audio_is_sink_available :: "string \<Rightarrow> 'w \<Rightarrow> c_int"
  audio_get_first_sink_name :: "'w \<Rightarrow> string option"

subsection \<open>Engine state\<close>

text \<open>
  The file's statics (\<open>run\<close>, \<open>start_timeout\<close>, \<open>take_screenshot\<close>,
  \<open>enable_screen_updates\<close>, \<open>screenshot_filename\<close>), the fields of \<open>EngineContext\<close>
  (\<open>visual_debugger\<close> to \<open>static_wait\<close>; its event buffer is the event being handled and
  its \<open>gs\<close> lives in the collaborators' state), the collaborators' state, the calls made
  so far and the values assigned to \<open>run\<close> so far, both in order.
\<close>

record 'w engine =
  run :: c_int
  start_timeout :: c_int
  take_screenshot :: c_int
  enable_screen_updates :: c_int
  screenshot_filename :: string
  visual_debugger :: c_int
  debugger_proceed :: c_int
  debugger_render :: c_int
  mouse_visible_ticks :: c_int
  frame_start :: c_int
  dynamic_wait :: c_int
  static_wait :: c_int
  world :: 'w
  calls :: "call list"
  run_writes :: "c_int list"

text \<open>What one invocation of \<open>engine_loop\<close> takes from outside: the events that
  \<open>SDL_PollEvent\<close> hands out before it returns 0, and the values of \<open>SDL_GetTicks\<close> at
  its four call sites, in the order of the source lines.\<close>

record frame_input =
  events :: "SDL_Event list"
  ticks_mouse :: Uint32
  ticks_dt :: Uint32
  ticks_start :: Uint32
  ticks_shot :: Uint32

text \<open>The settings that \<open>engine_init\<close> and \<open>engine_run\<close> read and a claim needs.\<close>

record settings =
  sink :: string
  crossfade_on :: c_int

definition call_void :: "'w env \<Rightarrow> call \<Rightarrow> 'w engine \<Rightarrow> 'w engine" where
  "call_void env c st = st\<lparr>world := ext env c (world st), calls := calls st @ [c]\<rparr>"

definition call_int :: "'w env \<Rightarrow> call \<Rightarrow> 'w engine \<Rightarrow> c_int \<times> 'w engine" where
  "call_int env c st = (ret env c (world st), call_void env c st)"

text \<open>An assignment to \<open>run\<close>.\<close>

definition assign_run :: "c_int \<Rightarrow> 'w engine \<Rightarrow> 'w engine" where
  "assign_run v st = st\<lparr>run := v, run_writes := run_writes st @ [v]\<rparr>"

section \<open>Signal handler\<close>


section \<open>\<open>engine_init\<close>\<close>

text \<open>The labels \<open>exit_6\<close> to \<open>exit_0\<close>: each falls through to the next.\<close>

definition exit_0 :: "'w env \<Rightarrow> 'w engine \<Rightarrow> c_int \<times> 'w engine" where
  "exit_0 env st = (1, st)"

definition exit_1 :: "'w env \<Rightarrow> 'w engine \<Rightarrow> c_int \<times> 'w engine" where
  "exit_1 env st = exit_0 env (call_void env Video_close st)"

definition exit_2 :: "'w env \<Rightarrow> 'w engine \<Rightarrow> c_int \<times> 'w engine" where
  "exit_2 env st = exit_1 env (call_void env Audio_close st)"

definition exit_3 :: "'w env \<Rightarrow> 'w engine \<Rightarrow> c_int \<times> 'w engine" where
  "exit_3 env st = exit_2 env (call_void env Sounds_loader_close st)"

definition exit_4 :: "'w env \<Rightarrow> 'w engine \<Rightarrow> c_int \<times> 'w engine" where
  "exit_4 env st = exit_3 env (call_void env Lang_close st)"

definition exit_5 :: "'w env \<Rightarrow> 'w engine \<Rightarrow> c_int \<times> 'w engine" where
  "exit_5 env st = exit_4 env (call_void env Fonts_close st)"

definition exit_6 :: "'w env \<Rightarrow> 'w engine \<Rightarrow> c_int \<times> 'w engine" where
  "exit_6 env st = exit_5 env (call_void env Altpals_close st)"

text \<open>Lines 51 to 59: the sink that \<open>audio_init\<close> is given, and the log line.\<close>

definition disabling_audio :: "string \<Rightarrow> string" where
  "disabling_audio prev_sink =
     ''Could not find requested sink '' @ [CHR 0x27] @ prev_sink @ [CHR 0x27]
     @ ''. No other sinks available; disabling audio.''"

definition falling_back :: "string \<Rightarrow> string \<Rightarrow> string" where
  "falling_back prev_sink audiosink =
     ''Could not find requested sink '' @ [CHR 0x27] @ prev_sink @ [CHR 0x27]
     @ ''. Falling back to '' @ [CHR 0x27] @ audiosink @ [CHR 0x27] @ ''.''"

definition resolve_sink :: "'w env \<Rightarrow> settings \<Rightarrow> 'w engine \<Rightarrow> string option \<times> 'w engine" where
  "resolve_sink env setting st =
     (if audio_is_sink_available env (sink setting) (world st) = 0 then
        (case audio_get_first_sink_name env (world st) of
           None \<Rightarrow> (None, call_void env (INFO (disabling_audio (sink setting))) st)
         | Some s \<Rightarrow> (Some s, call_void env (INFO (falling_back (sink setting) s)) st))
      else (Some (sink setting), st))"

definition engine_init :: "'w env \<Rightarrow> settings \<Rightarrow> 'w engine \<Rightarrow> c_int \<times> 'w engine" where
  "engine_init env setting st0 =
     (let (r, st) = call_int env Video_init st0 in
      if r \<noteq> 0 then exit_0 env st else
      let (audiosink, st) = resolve_sink env setting st;
          (r, st) = call_int env (Audio_init audiosink) st in
      if r \<noteq> 0 then exit_1 env st else
      let st = call_void env Sound_set_volume st;
          st = call_void env Music_set_volume st;
          (r, st) = call_int env Sounds_loader_init st in
      if r \<noteq> 0 then exit_2 env st else
      let (r, st) = call_int env Lang_init st in
      if r \<noteq> 0 then exit_3 env st else
      let (r, st) = call_int env Fonts_init st in
      if r \<noteq> 0 then exit_4 env st else
      let (r, st) = call_int env Altpals_init st in
      if r \<noteq> 0 then exit_5 env st else
      let (r, st) = call_int env Console_init st in
      if r \<noteq> 0 then exit_6 env st else
      (0, call_void env (INFO ''Engine initialization successful.'') (assign_run 1 st)))"

section \<open>\<open>engine_loop\<close>\<close>

subsection \<open>Lines 137 to 214: the event loop\<close>

text \<open>The \<open>switch\<close> on the event type.\<close>

fun window_event :: "'w env \<Rightarrow> SDL_WindowEventID \<Rightarrow> 'w engine \<Rightarrow> 'w engine" where
  "window_event env SDL_WINDOWEVENT_MINIMIZED st =
     (call_void env (DEBUG ''MINIMIZED'') st)\<lparr>enable_screen_updates := 0\<rparr>"
| "window_event env SDL_WINDOWEVENT_HIDDEN st =
     (call_void env (DEBUG ''HIDDEN'') st)\<lparr>enable_screen_updates := 0\<rparr>"
| "window_event env SDL_WINDOWEVENT_MAXIMIZED st =
     (call_void env (DEBUG ''MAXIMIZED'') st)\<lparr>enable_screen_updates := 1\<rparr>"
| "window_event env SDL_WINDOWEVENT_RESTORED st =
     (let (check_fs, st) = call_int env Video_get_state st;
          st = (if check_fs \<noteq> 0 then call_void env Video_reinit_renderer st else st)
      in (call_void env (DEBUG ''RESTORED'') st)\<lparr>enable_screen_updates := 1\<rparr>)"
| "window_event env SDL_WINDOWEVENT_SHOWN st =
     call_void env (DEBUG ''SHOWN'') (st\<lparr>enable_screen_updates := 1\<rparr>)"
| "window_event env (SDL_WINDOWEVENT_other n) st = st"

fun event_switch :: "'w env \<Rightarrow> SDL_Event \<Rightarrow> 'w engine \<Rightarrow> 'w engine" where
  "event_switch env SDL_QUIT st = assign_run 0 st"
| "event_switch env (SDL_KEYDOWN keysym scancode) st =
     (let st = (if keysym = SDLK_F1 then st\<lparr>take_screenshot := 1\<rparr> else st);
          st = (if keysym = SDLK_F5 then st\<lparr>visual_debugger := c_not (visual_debugger st)\<rparr>
                else st);
          st = (if keysym = SDLK_SPACE then st\<lparr>debugger_proceed := 1\<rparr> else st);
          st = (if keysym = SDLK_F6 then st\<lparr>debugger_render := c_not (debugger_render st)\<rparr>
                else st)
      in st)"
| "event_switch env SDL_MOUSEMOTION st =
     call_void env (SDL_ShowCursor 1) (st\<lparr>mouse_visible_ticks := 1000\<rparr>)"
| "event_switch env (SDL_WINDOWEVENT w) st = window_event env w st"
| "event_switch env (SDL_other n) st = st"

text \<open>Lines 207 to 213: the event goes to the console or to the game state.\<close>

definition dispatch_event :: "'w env \<Rightarrow> SDL_Event \<Rightarrow> 'w engine \<Rightarrow> 'w engine" where
  "dispatch_event env e st =
     (if console_window_is_open env (world st) \<noteq> 0 then call_void env (Console_event e) st
      else call_void env (Game_state_handle_event e) st)"

text \<open>Lines 191 to 213: a key press that closes or opens the console leaves the loop
  body by \<open>continue\<close>; every other event is dispatched.\<close>

fun console_events :: "'w env \<Rightarrow> SDL_Event \<Rightarrow> 'w engine \<Rightarrow> 'w engine" where
  "console_events env (SDL_KEYDOWN keysym scancode) st =
     (if console_window_is_open env (world st) \<noteq> 0
         \<and> (scancode = SDL_SCANCODE_GRAVE \<or> keysym = SDLK_BACKQUOTE \<or> keysym = SDLK_TAB
            \<or> keysym = SDLK_ESCAPE)
      then call_void env Console_window_close st
      else if keysym = SDLK_TAB \<or> keysym = SDLK_BACKQUOTE \<or> scancode = SDL_SCANCODE_GRAVE
      then call_void env Console_window_open st
      else dispatch_event env (SDL_KEYDOWN keysym scancode) st)"
| "console_events env e st = dispatch_event env e st"

definition handle_event :: "'w env \<Rightarrow> SDL_Event \<Rightarrow> 'w engine \<Rightarrow> 'w engine" where
  "handle_event env e st = console_events env e (event_switch env e st)"

fun poll_events :: "'w env \<Rightarrow> SDL_Event list \<Rightarrow> 'w engine \<Rightarrow> 'w engine" where
  "poll_events env [] st = st"
| "poll_events env (e # es) st = poll_events env es (handle_event env e st)"

subsection \<open>Lines 216 to 222: the cursor countdown\<close>

text \<open>\<open>mouse_visible_ticks -= SDL_GetTicks() - frame_start\<close> is computed on \<open>unsigned\<close>
  and stored back into the \<open>int\<close>.\<close>

definition hide_mouse :: "'w env \<Rightarrow> frame_input \<Rightarrow> 'w engine \<Rightarrow> 'w engine" where
  "hide_mouse env inp st =
     (if 0 <s mouse_visible_ticks st then
        (let st = st\<lparr>mouse_visible_ticks :=
                      mouse_visible_ticks st - (ticks_mouse inp - frame_start st)\<rparr>
         in if mouse_visible_ticks st \<le>s 0 then call_void env (SDL_ShowCursor 0) st else st)
      else st)"

subsection \<open>Lines 228 to 237: the elapsed time goes to the accumulators\<close>

definition accumulate :: "frame_input \<Rightarrow> 'w engine \<Rightarrow> 'w engine" where
  "accumulate inp st =
     (let dt = ticks_dt inp - frame_start st;
          st = st\<lparr>frame_start := ticks_start inp\<rparr>
      in if visual_debugger st = 0 then
           st\<lparr>dynamic_wait := dynamic_wait st + dt, static_wait := static_wait st + dt\<rparr>
         else if debugger_proceed st \<noteq> 0 then
           st\<lparr>dynamic_wait := dynamic_wait st + 20, static_wait := static_wait st + 20,
               debugger_proceed := 0\<rparr>
         else st)"

subsection \<open>Lines 238 to 249: the static ticks\<close>

definition static_tick :: "'w env \<Rightarrow> 'w engine \<Rightarrow> 'w engine" where
  "static_tick env st =
     (let st = call_void env Game_state_static_tick st;
          st = call_void env Console_tick st;
          st = call_void env Video_tick st
      in st\<lparr>static_wait := static_wait st - 10\<rparr>)"

function drain_static :: "'w env \<Rightarrow> 'w engine \<Rightarrow> 'w engine" where
  "drain_static env st =
     (if 10 <s static_wait st then drain_static env (static_tick env st) else st)"
  by pat_completeness auto
termination
proof (relation "measure (\<lambda>(env, st). nat (sint (static_wait st)))")
  fix env :: "'w env" and st :: "'w engine"
  assume less: "10 <s static_wait st"
  have "static_wait (static_tick env st) = static_wait st - 10"
    by (simp add: static_tick_def call_void_def)
  moreover have "sint (static_wait st - 10) = sint (static_wait st) - 10"
    using less sint_lt [of "static_wait st"]
    by (simp add: word_sless_alt sint_word_diff signed_take_bit_int_eq_self)
  ultimately show "((env, static_tick env st), (env, st))
      \<in> measure (\<lambda>(env, st). nat (sint (static_wait st)))"
    using less by (simp add: word_sless_alt)
qed simp

declare drain_static.simps [simp del]

subsection \<open>Lines 250 to 256: the dynamic ticks\<close>

text \<open>The period is asked of the game state anew for the test and, after the tick, for
  the subtraction. Nothing bounds the loop when the period is not positive, so the
  result is optional: \<open>None\<close> stands for a loop that does not end.\<close>

definition dynamic_tick :: "'w env \<Rightarrow> 'w engine \<Rightarrow> 'w engine" where
  "dynamic_tick env st =
     (let st = call_void env Game_state_dynamic_tick st
      in st\<lparr>dynamic_wait := dynamic_wait st - game_state_ms_per_dyntick env (world st)\<rparr>)"

partial_function (option) drain_dynamic :: "'w env \<Rightarrow> 'w engine \<Rightarrow> 'w engine option" where
  "drain_dynamic env st =
     (if game_state_ms_per_dyntick env (world st) <s dynamic_wait st
      then drain_dynamic env (dynamic_tick env st) else Some st)"

subsection \<open>Lines 258 to 301: audio, rendering and the screenshot\<close>

text \<open>The digits that \<open>%u\<close> prints.\<close>

fun decimal :: "nat \<Rightarrow> string" where
  "decimal n = (if n < 10 then [char_of (48 + n)]
                else decimal (n div 10) @ [char_of (48 + n mod 10)])"

declare decimal.simps [simp del]

text \<open>Lines 276 to 297. The file name is at most 25 characters, so \<open>snprintf\<close> into the
  128-byte buffer never cuts it.\<close>

definition screenshot_name :: "Uint32 \<Rightarrow> string \<Rightarrow> string" where
  "screenshot_name ticks extension = ''screenshot_'' @ decimal (unat ticks) @ extension"

definition write_screenshot :: "'w env \<Rightarrow> frame_input \<Rightarrow> 'w engine \<Rightarrow> 'w engine" where
  "write_screenshot env inp st =
     (let (scr_ret, st) =
            (if image_supports_png env (world st) \<noteq> 0 then
               (let st = st\<lparr>screenshot_filename := screenshot_name (ticks_shot inp) ''.png''\<rparr>
                in call_int env (Image_write_png (screenshot_filename st)) st)
             else
               (let st = st\<lparr>screenshot_filename := screenshot_name (ticks_shot inp) ''.tga''\<rparr>
                in call_int env (Image_write_tga (screenshot_filename st)) st))
      in if scr_ret \<noteq> 0 then
           call_void env (PERROR (''Screenshot write operation failed (''
                                   @ screenshot_filename st @ '')'')) st
         else call_void env (DEBUG (''Got a screenshot: '' @ screenshot_filename st)) st)"

definition service_screenshot :: "'w env \<Rightarrow> frame_input \<Rightarrow> 'w engine \<Rightarrow> 'w engine" where
  "service_screenshot env inp st =
     (if take_screenshot st \<noteq> 0 then
        (let (failed_screenshot, st) = call_int env Video_screenshot st;
             st = (if failed_screenshot = 0 then write_screenshot env inp st else st);
             st = call_void env Image_free st
         in st\<lparr>take_screenshot := 0\<rparr>)
      else st)"

definition render :: "'w env \<Rightarrow> frame_input \<Rightarrow> 'w engine \<Rightarrow> 'w engine" where
  "render env inp st =
     (let st = (if visual_debugger st = 0 then call_void env Audio_render st else st)
      in if enable_screen_updates st \<noteq> 0 then
           (let st = call_void env Video_render_prepare st;
                st = call_void env Game_state_render st;
                st = (if debugger_render st \<noteq> 0 then call_void env Game_state_debug st
                      else st);
                st = call_void env Console_render st;
                st = call_void env Video_render_finish st
            in service_screenshot env inp st)
         else call_void env (SDL_Delay 1) st)"

subsection \<open>The whole callback\<close>

text \<open>Lines 134 to 237: events, cursor, controllers and the accumulators.\<close>

definition advance :: "'w env \<Rightarrow> frame_input \<Rightarrow> 'w engine \<Rightarrow> 'w engine" where
  "advance env inp st =
     (let st = poll_events env (events inp) st;
          st = hide_mouse env inp st;
          st = call_void env Game_state_tick_controllers st
      in accumulate inp st)"

text \<open>Lines 134 to 256: the above and both drains.\<close>

definition schedule :: "'w env \<Rightarrow> frame_input \<Rightarrow> 'w engine \<Rightarrow> 'w engine option" where
  "schedule env inp st = drain_dynamic env (drain_static env (advance env inp st))"

text \<open>Lines 129 to 132: the test that ends the loop.\<close>

definition stopped :: "'w env \<Rightarrow> 'w engine \<Rightarrow> bool" where
  "stopped env st \<longleftrightarrow> run st = 0 \<or> game_state_is_running env (world st) = 0"

definition engine_loop :: "'w env \<Rightarrow> frame_input \<Rightarrow> 'w engine \<Rightarrow> 'w engine option" where
  "engine_loop env inp st =
     (if stopped env st then Some (call_void env Emscripten_cancel_main_loop st)
      else (case schedule env inp st of
              None \<Rightarrow> None
            | Some st \<Rightarrow> Some (render env inp st)))"

section \<open>\<open>engine_run\<close>\<close>

text \<open>Lines 311 to 320: the context that the first callback sees.\<close>

definition engine_context :: "Uint32 \<Rightarrow> 'w engine \<Rightarrow> 'w engine" where
  "engine_context ticks st =
     st\<lparr>visual_debugger := 0, debugger_proceed := 0, debugger_render := 0,
        mouse_visible_ticks := 1000, frame_start := ticks, dynamic_wait := 0,
        static_wait := 0\<rparr>"

text \<open>The host calls \<open>engine_loop\<close> once per frame; a list of inputs stands for the
  successive calls.\<close>

fun engine_loops :: "'w env \<Rightarrow> frame_input list \<Rightarrow> 'w engine \<Rightarrow> 'w engine option" where
  "engine_loops env [] st = Some st"
| "engine_loops env (inp # inps) st =
     (case engine_loop env inp st of
        None \<Rightarrow> None
      | Some st \<Rightarrow> engine_loops env inps st)"







section \<open>\<open>engine_close\<close>\<close>

definition engine_close :: "'w env \<Rightarrow> 'w engine \<Rightarrow> 'w engine" where
  "engine_close env st =
     (let st = call_void env Console_close st;
          st = call_void env Altpals_close st;
          st = call_void env Fonts_close st;
          st = call_void env Lang_close st;
          st = call_void env Sounds_loader_close st;
          st = call_void env Audio_close st;
          st = call_void env Video_close st
      in call_void env (INFO ''Engine deinit successful.'') st)"

section \<open>The process\<close>


section \<open>Observing a run\<close>

text \<open>The calls made between an earlier state and a later one.\<close>

definition made :: "'w engine \<Rightarrow> 'w engine \<Rightarrow> call list" where
  "made st st' = drop (length (calls st)) (calls st')"

text \<open>How often a call was made between two states.\<close>

definition occurs :: "call \<Rightarrow> 'w engine \<Rightarrow> 'w engine \<Rightarrow> nat" where
  "occurs c st st' = count_list (made st st') c"

subsection \<open>Subsystems\<close>

datatype subsystem =
  Rendering | Audio | Resource_loader | Localization | Font_cache | Palette_cache | Console

definition subsystems :: "subsystem list" where
  "subsystems =
     [Rendering, Audio, Resource_loader, Localization, Font_cache, Palette_cache, Console]"

fun init_of :: "call \<Rightarrow> subsystem option" where
  "init_of Video_init = Some Rendering"
| "init_of (Audio_init s) = Some Audio"
| "init_of Sounds_loader_init = Some Resource_loader"
| "init_of Lang_init = Some Localization"
| "init_of Fonts_init = Some Font_cache"
| "init_of Altpals_init = Some Palette_cache"
| "init_of Console_init = Some Console"
| "init_of _ = None"

fun close_of :: "call \<Rightarrow> subsystem option" where
  "close_of Video_close = Some Rendering"
| "close_of Audio_close = Some Audio"
| "close_of Sounds_loader_close = Some Resource_loader"
| "close_of Lang_close = Some Localization"
| "close_of Fonts_close = Some Font_cache"
| "close_of Altpals_close = Some Palette_cache"
| "close_of Console_close = Some Console"
| "close_of _ = None"

text \<open>The subsystems whose \<open>init\<close>, and whose \<open>close\<close>, a list of calls holds, in order.\<close>

definition inits :: "call list \<Rightarrow> subsystem list" where
  "inits cs = List.map_filter init_of cs"

definition closes :: "call list \<Rightarrow> subsystem list" where
  "closes cs = List.map_filter close_of cs"

text \<open>What the \<open>init\<close> calls among a list of calls returned, when the calls are made in
  turn from the collaborators' state \<open>w\<close>.\<close>

fun init_results :: "'w env \<Rightarrow> 'w \<Rightarrow> call list \<Rightarrow> c_int list" where
  "init_results env w [] = []"
| "init_results env w (c # cs) =
     (if init_of c = None then [] else [ret env c w]) @ init_results env (ext env c w) cs"

subsection \<open>Events, frames and calls\<close>

text \<open>How many of the events are presses of a given key.\<close>

fun is_press :: "SDL_Keycode \<Rightarrow> SDL_Event \<Rightarrow> bool" where
  "is_press k (SDL_KEYDOWN keysym scancode) = (keysym = k)"
| "is_press k _ = False"

definition key_presses :: "SDL_Keycode \<Rightarrow> SDL_Event list \<Rightarrow> nat" where
  "key_presses k es = length (filter (is_press k) es)"












text \<open>The calls that the event loop can make, and those that lines 258 to 301 can.\<close>

fun from_events :: "call \<Rightarrow> bool" where
  "from_events (SDL_ShowCursor x) = (x = 1)"
| "from_events (DEBUG s) = True"
| "from_events Video_get_state = True"
| "from_events Video_reinit_renderer = True"
| "from_events Console_window_close = True"
| "from_events Console_window_open = True"
| "from_events (Console_event e) = True"
| "from_events (Game_state_handle_event e) = True"
| "from_events _ = False"

fun from_render :: "call \<Rightarrow> bool" where
  "from_render Audio_render = True"
| "from_render Video_render_prepare = True"
| "from_render Game_state_render = True"
| "from_render Game_state_debug = True"
| "from_render Console_render = True"
| "from_render Video_render_finish = True"
| "from_render Video_screenshot = True"
| "from_render (Image_write_png f) = True"
| "from_render (Image_write_tga f) = True"
| "from_render (PERROR s) = True"
| "from_render (DEBUG s) = True"
| "from_render Image_free = True"
| "from_render (SDL_Delay n) = True"
| "from_render _ = False"

subsection \<open>Concrete collaborators and states\<close>

text \<open>The statics as the program starts (\<open>run = 0\<close>, \<open>start_timeout = 30\<close>,
  \<open>take_screenshot = 0\<close>, \<open>enable_screen_updates = 1\<close>), no context yet, no call made,
  nothing assigned to \<open>run\<close>; collaborators without state of their own.\<close>

definition program_start :: "unit engine" where
  "program_start =
     \<lparr>run = 0, start_timeout = 30, take_screenshot = 0, enable_screen_updates = 1,
      screenshot_filename = [],
      visual_debugger = 0, debugger_proceed = 0, debugger_render = 0,
      mouse_visible_ticks = 0, frame_start = 0, dynamic_wait = 0, static_wait = 0,
      world = (), calls = [], run_writes = []\<rparr>"

text \<open>Collaborators that always succeed: every sink is available, the game runs with a
  dynamic period of 16 ms, the console is closed, PNG is supported.\<close>

definition plain_env :: "unit env" where
  "plain_env =
     \<lparr>ext = (\<lambda>c w. w), ret = (\<lambda>c w. 0), game_state_is_running = (\<lambda>w. 1),
      game_state_ms_per_dyntick = (\<lambda>w. 16), console_window_is_open = (\<lambda>w. 0),
      image_supports_png = (\<lambda>w. 1), audio_is_sink_available = (\<lambda>s w. 1),
      audio_get_first_sink_name = (\<lambda>w. Some ''alsa'')\<rparr>"

text \<open>The same, but \<open>fonts_init\<close> fails.\<close>

definition fonts_fail_env :: "unit env" where
  "fonts_fail_env = plain_env\<lparr>ret := (\<lambda>c w. if c = Fonts_init then 1 else 0)\<rparr>"

text \<open>The state that the first callback finds after a successful \<open>engine_init\<close>, with
  the clock at 0 when \<open>engine_run\<close> set the context up.\<close>

definition running :: "unit engine" where
  "running = engine_context 0 (assign_run 1 program_start)"

text \<open>A callback that finds the given events pending and the clock at \<open>t\<close> throughout.\<close>

definition frame :: "SDL_Event list \<Rightarrow> Uint32 \<Rightarrow> frame_input" where
  "frame es t = \<lparr>events = es, ticks_mouse = t, ticks_dt = t, ticks_start = t, ticks_shot = t\<rparr>"

definition pulse :: settings where
  "pulse = \<lparr>sink = ''pulse'', crossfade_on = 1\<rparr>"























section \<open>Basic facts\<close>

lemma call_void_fields [simp]:
  "run (call_void env c st) = run st"
  "take_screenshot (call_void env c st) = take_screenshot st"
  "enable_screen_updates (call_void env c st) = enable_screen_updates st"
  "screenshot_filename (call_void env c st) = screenshot_filename st"
  "visual_debugger (call_void env c st) = visual_debugger st"
  "debugger_proceed (call_void env c st) = debugger_proceed st"
  "debugger_render (call_void env c st) = debugger_render st"
  "mouse_visible_ticks (call_void env c st) = mouse_visible_ticks st"
  "frame_start (call_void env c st) = frame_start st"
  "dynamic_wait (call_void env c st) = dynamic_wait st"
  "static_wait (call_void env c st) = static_wait st"
  "world (call_void env c st) = ext env c (world st)"
  "calls (call_void env c st) = calls st @ [c]"
  "start_timeout (call_void env c st) = start_timeout st"
  "run_writes (call_void env c st) = run_writes st"
  by (simp_all add: call_void_def)

lemma assign_run_fields [simp]:
  "run (assign_run v st) = v"
  "start_timeout (assign_run v st) = start_timeout st"
  "take_screenshot (assign_run v st) = take_screenshot st"
  "enable_screen_updates (assign_run v st) = enable_screen_updates st"
  "screenshot_filename (assign_run v st) = screenshot_filename st"
  "visual_debugger (assign_run v st) = visual_debugger st"
  "debugger_proceed (assign_run v st) = debugger_proceed st"
  "debugger_render (assign_run v st) = debugger_render st"
  "mouse_visible_ticks (assign_run v st) = mouse_visible_ticks st"
  "frame_start (assign_run v st) = frame_start st"
  "dynamic_wait (assign_run v st) = dynamic_wait st"
  "static_wait (assign_run v st) = static_wait st"
  "world (assign_run v st) = world st"
  "calls (assign_run v st) = calls st"
  "run_writes (assign_run v st) = run_writes st @ [v]"
  by (simp_all add: assign_run_def)

lemma made_append [simp]: "calls st' = calls st @ cs \<Longrightarrow> made st st' = cs"
  by (simp add: made_def)

lemmas exits = exit_0_def exit_1_def exit_2_def exit_3_def exit_4_def exit_5_def exit_6_def

lemmas concrete =
  program_start_def plain_env_def fonts_fail_env_def pulse_def running_def frame_def
  engine_context_def assign_run_def

section \<open>Word arithmetic\<close>


lemma sint_sub:
  fixes a b :: "32 word"
  assumes "- (2 ^ 31) \<le> sint a - sint b" "sint a - sint b < 2 ^ 31"
  shows "sint (a - b) = sint a - sint b"
  using assms by (simp add: sint_word_diff signed_take_bit_int_eq_self)

lemma sint_range: "- (2 ^ 31) \<le> sint (a :: 32 word)" "sint (a :: 32 word) < 2 ^ 31"
  using sint_ge [of a] sint_lt [of a] by simp_all

section \<open>The event loop\<close>

lemma call_int_simps [simp]:
  "fst (call_int env c st) = ret env c (world st)"
  "snd (call_int env c st) = call_void env c st"
  by (simp_all add: call_int_def)

lemma window_event_fields [simp]:
  "run (window_event env w st) = run st"
  "take_screenshot (window_event env w st) = take_screenshot st"
  "visual_debugger (window_event env w st) = visual_debugger st"
  "debugger_proceed (window_event env w st) = debugger_proceed st"
  "mouse_visible_ticks (window_event env w st) = mouse_visible_ticks st"
  "frame_start (window_event env w st) = frame_start st"
  "dynamic_wait (window_event env w st) = dynamic_wait st"
  "static_wait (window_event env w st) = static_wait st"
  by (cases w; simp add: case_prod_beta Let_def)+

lemma window_event_calls:
  "prefix (calls st) (calls (window_event env w st))"
  "\<not> from_events c \<Longrightarrow> count_list (calls (window_event env w st)) c = count_list (calls st) c"
  by (cases w; cases c; simp add: case_prod_beta Let_def)+

lemma event_switch_fields [simp]:
  "frame_start (event_switch env e st) = frame_start st"
  "dynamic_wait (event_switch env e st) = dynamic_wait st"
  "static_wait (event_switch env e st) = static_wait st"
  "run (event_switch env e st) = (if e = SDL_QUIT then 0 else run st)"
  "take_screenshot (event_switch env e st) = (if is_press SDLK_F1 e then 1 else take_screenshot st)"
  "visual_debugger (event_switch env e st) =
     (if is_press SDLK_F5 e then c_not (visual_debugger st) else visual_debugger st)"
  "debugger_proceed (event_switch env e st) = (if is_press SDLK_SPACE e then 1 else debugger_proceed st)"
  "mouse_visible_ticks (event_switch env e st) =
     (if e = SDL_MOUSEMOTION then 1000 else mouse_visible_ticks st)"
  by (cases e; simp add: Let_def)+

lemma event_switch_calls:
  "prefix (calls st) (calls (event_switch env e st))"
  "\<not> from_events c \<Longrightarrow> count_list (calls (event_switch env e st)) c = count_list (calls st) c"
  by (cases e; cases c; simp add: Let_def window_event_calls)+

lemma dispatch_event_fields [simp]:
  "run (dispatch_event env e st) = run st"
  "take_screenshot (dispatch_event env e st) = take_screenshot st"
  "enable_screen_updates (dispatch_event env e st) = enable_screen_updates st"
  "visual_debugger (dispatch_event env e st) = visual_debugger st"
  "debugger_proceed (dispatch_event env e st) = debugger_proceed st"
  "mouse_visible_ticks (dispatch_event env e st) = mouse_visible_ticks st"
  "frame_start (dispatch_event env e st) = frame_start st"
  "dynamic_wait (dispatch_event env e st) = dynamic_wait st"
  "static_wait (dispatch_event env e st) = static_wait st"
  by (simp_all add: dispatch_event_def)

lemma console_events_fields [simp]:
  "run (console_events env e st) = run st"
  "take_screenshot (console_events env e st) = take_screenshot st"
  "enable_screen_updates (console_events env e st) = enable_screen_updates st"
  "visual_debugger (console_events env e st) = visual_debugger st"
  "debugger_proceed (console_events env e st) = debugger_proceed st"
  "mouse_visible_ticks (console_events env e st) = mouse_visible_ticks st"
  "frame_start (console_events env e st) = frame_start st"
  "dynamic_wait (console_events env e st) = dynamic_wait st"
  "static_wait (console_events env e st) = static_wait st"
  by (cases e; simp)+

lemma console_events_calls:
  "prefix (calls st) (calls (console_events env e st))"
  "\<not> from_events c \<Longrightarrow> count_list (calls (console_events env e st)) c = count_list (calls st) c"
  by (cases e; cases c; simp add: dispatch_event_def)+

lemma handle_event_fields [simp]:
  "frame_start (handle_event env e st) = frame_start st"
  "dynamic_wait (handle_event env e st) = dynamic_wait st"
  "static_wait (handle_event env e st) = static_wait st"
  "run (handle_event env e st) = (if e = SDL_QUIT then 0 else run st)"
  "take_screenshot (handle_event env e st) = (if is_press SDLK_F1 e then 1 else take_screenshot st)"
  "visual_debugger (handle_event env e st) =
     (if is_press SDLK_F5 e then c_not (visual_debugger st) else visual_debugger st)"
  "debugger_proceed (handle_event env e st) = (if is_press SDLK_SPACE e then 1 else debugger_proceed st)"
  "mouse_visible_ticks (handle_event env e st) =
     (if e = SDL_MOUSEMOTION then 1000 else mouse_visible_ticks st)"
  by (simp_all add: handle_event_def)

lemma handle_event_calls:
  "prefix (calls st) (calls (handle_event env e st))"
  "\<not> from_events c \<Longrightarrow> count_list (calls (handle_event env e st)) c = count_list (calls st) c"
proof -
  show "prefix (calls st) (calls (handle_event env e st))"
    unfolding handle_event_def
    by (rule prefix_order.trans [OF event_switch_calls(1) console_events_calls(1)])
  show "\<not> from_events c \<Longrightarrow> count_list (calls (handle_event env e st)) c = count_list (calls st) c"
    by (simp add: handle_event_def event_switch_calls console_events_calls)
qed

lemma poll_events_waits [simp]:
  "frame_start (poll_events env es st) = frame_start st"
  "dynamic_wait (poll_events env es st) = dynamic_wait st"
  "static_wait (poll_events env es st) = static_wait st"
  by (induction es arbitrary: st; simp)+

lemma poll_events_run:
  "run (poll_events env es st) = (if SDL_QUIT \<in> set es then 0 else run st)"
  by (induction es arbitrary: st) auto

lemma poll_events_take_screenshot:
  "take_screenshot (poll_events env es st)
     = (if 0 < key_presses SDLK_F1 es then 1 else take_screenshot st)"
  by (induction es arbitrary: st) (auto simp: key_presses_def)


lemma poll_events_visual_debugger:
  "key_presses SDLK_F5 es = 0 \<Longrightarrow> visual_debugger (poll_events env es st) = visual_debugger st"
  by (induction es arbitrary: st) (auto simp: key_presses_def split: if_splits)


lemma poll_events_prefix: "prefix (calls st) (calls (poll_events env es st))"
proof (induction es arbitrary: st)
  case Nil
  show ?case by simp
next
  case (Cons e es)
  show ?case
    using prefix_order.trans [OF handle_event_calls(1) Cons [of "handle_event env e st"]]
    by simp
qed

lemma poll_events_count:
  "\<not> from_events c \<Longrightarrow> count_list (calls (poll_events env es st)) c = count_list (calls st) c"
  by (induction es arbitrary: st) (simp_all add: handle_event_calls)

section \<open>Cursor, accumulators\<close>

lemma hide_mouse_fields [simp]:
  "run (hide_mouse env inp st) = run st"
  "take_screenshot (hide_mouse env inp st) = take_screenshot st"
  "enable_screen_updates (hide_mouse env inp st) = enable_screen_updates st"
  "visual_debugger (hide_mouse env inp st) = visual_debugger st"
  "debugger_proceed (hide_mouse env inp st) = debugger_proceed st"
  "frame_start (hide_mouse env inp st) = frame_start st"
  "dynamic_wait (hide_mouse env inp st) = dynamic_wait st"
  "static_wait (hide_mouse env inp st) = static_wait st"
  by (simp_all add: hide_mouse_def Let_def)


lemma hide_mouse_calls:
  "calls (hide_mouse env inp st) =
     calls st @ (if 0 <s mouse_visible_ticks st
                    \<and> mouse_visible_ticks st - (ticks_mouse inp - frame_start st) \<le>s 0
                 then [SDL_ShowCursor 0] else [])"
  by (simp add: hide_mouse_def Let_def)

lemma accumulate_fields [simp]:
  "run (accumulate inp st) = run st"
  "take_screenshot (accumulate inp st) = take_screenshot st"
  "enable_screen_updates (accumulate inp st) = enable_screen_updates st"
  "visual_debugger (accumulate inp st) = visual_debugger st"
  "mouse_visible_ticks (accumulate inp st) = mouse_visible_ticks st"
  "frame_start (accumulate inp st) = ticks_start inp"
  "world (accumulate inp st) = world st"
  "calls (accumulate inp st) = calls st"
  by (simp_all add: accumulate_def Let_def)

lemma accumulate_waits:
  "static_wait (accumulate inp st) = static_wait st +
     (if visual_debugger st = 0 then ticks_dt inp - frame_start st
      else if debugger_proceed st \<noteq> 0 then 20 else 0)"
  "dynamic_wait (accumulate inp st) = dynamic_wait st +
     (if visual_debugger st = 0 then ticks_dt inp - frame_start st
      else if debugger_proceed st \<noteq> 0 then 20 else 0)"
  "debugger_proceed (accumulate inp st) =
     (if visual_debugger st = 0 then debugger_proceed st else 0)"
  by (simp_all add: accumulate_def Let_def)

section \<open>Static ticks\<close>

lemma static_tick_fields [simp]:
  "run (static_tick env st) = run st"
  "take_screenshot (static_tick env st) = take_screenshot st"
  "enable_screen_updates (static_tick env st) = enable_screen_updates st"
  "visual_debugger (static_tick env st) = visual_debugger st"
  "debugger_proceed (static_tick env st) = debugger_proceed st"
  "mouse_visible_ticks (static_tick env st) = mouse_visible_ticks st"
  "frame_start (static_tick env st) = frame_start st"
  "dynamic_wait (static_tick env st) = dynamic_wait st"
  "static_wait (static_tick env st) = static_wait st - 10"
  "calls (static_tick env st) = calls st @ [Game_state_static_tick, Console_tick, Video_tick]"
  by (simp_all add: static_tick_def Let_def)

text \<open>The number of passes of the static loop from an accumulator \<open>a\<close>.\<close>

lemma static_passes_step:
  fixes a :: int
  assumes "10 < a"
  shows "nat ((a - 1) div 10) = Suc (nat ((a - 10 - 1) div 10))"
proof -
  have "(a - 1) div 10 = (a - 10 - 1) div 10 + 1" by simp
  moreover have "0 \<le> (a - 10 - 1) div 10" using assms by simp
  ultimately show ?thesis by simp
qed

lemma static_passes_none:
  fixes a :: int
  assumes "a \<le> 10"
  shows "nat ((a - 1) div 10) = 0"
  using assms by simp

lemma drain_static_is:
  "drain_static env st = (static_tick env ^^ nat ((sint (static_wait st) - 1) div 10)) st"
proof (induction env st rule: drain_static.induct)
  case (1 env st)
  show ?case
  proof (cases "10 <s static_wait st")
    case True
    then have less: "10 < sint (static_wait st)" by (simp add: word_sless_alt)
    have "sint (static_wait (static_tick env st)) = sint (static_wait st) - 10"
      using less sint_range [of "static_wait st"] by (simp add: sint_sub)
    with 1 True static_passes_step [OF less] show ?thesis
      by (simp add: drain_static.simps [of env st] funpow_swap1)
  next
    case False
    then have "sint (static_wait st) \<le> 10" by (simp add: word_sless_alt)
    with False show ?thesis by (simp add: drain_static.simps [of env st])
  qed
qed

lemma static_ticks_fields [simp]:
  "run ((static_tick env ^^ n) st) = run st"
  "take_screenshot ((static_tick env ^^ n) st) = take_screenshot st"
  "enable_screen_updates ((static_tick env ^^ n) st) = enable_screen_updates st"
  "visual_debugger ((static_tick env ^^ n) st) = visual_debugger st"
  "debugger_proceed ((static_tick env ^^ n) st) = debugger_proceed st"
  "mouse_visible_ticks ((static_tick env ^^ n) st) = mouse_visible_ticks st"
  "frame_start ((static_tick env ^^ n) st) = frame_start st"
  "dynamic_wait ((static_tick env ^^ n) st) = dynamic_wait st"
  by (induction n; simp)+

lemma static_ticks_wait:
  "static_wait ((static_tick env ^^ n) st) = static_wait st - 10 * of_nat n"
  by (induction n) simp_all

lemma static_ticks_count:
  "count_list (calls ((static_tick env ^^ n) st)) c = count_list (calls st) c
     + (if c \<in> {Game_state_static_tick, Console_tick, Video_tick} then n else 0)"
  by (induction n) auto

lemma static_ticks_prefix: "prefix (calls st) (calls ((static_tick env ^^ n) st))"
proof (induction n)
  case 0
  show ?case by simp
next
  case (Suc n)
  then show ?case by (auto simp: prefix_def)
qed

lemma drain_static_fields [simp]:
  "run (drain_static env st) = run st"
  "take_screenshot (drain_static env st) = take_screenshot st"
  "enable_screen_updates (drain_static env st) = enable_screen_updates st"
  "visual_debugger (drain_static env st) = visual_debugger st"
  "debugger_proceed (drain_static env st) = debugger_proceed st"
  "mouse_visible_ticks (drain_static env st) = mouse_visible_ticks st"
  "frame_start (drain_static env st) = frame_start st"
  "dynamic_wait (drain_static env st) = dynamic_wait st"
  by (simp_all add: drain_static_is)

lemma drain_static_bound: "static_wait (drain_static env st) \<le>s 10"
  by (induction env st rule: drain_static.induct)
     (simp add: drain_static.simps word_sless_alt word_sle_eq)


section \<open>Dynamic ticks\<close>

lemma dynamic_tick_fields [simp]:
  "run (dynamic_tick env st) = run st"
  "take_screenshot (dynamic_tick env st) = take_screenshot st"
  "enable_screen_updates (dynamic_tick env st) = enable_screen_updates st"
  "visual_debugger (dynamic_tick env st) = visual_debugger st"
  "debugger_proceed (dynamic_tick env st) = debugger_proceed st"
  "mouse_visible_ticks (dynamic_tick env st) = mouse_visible_ticks st"
  "frame_start (dynamic_tick env st) = frame_start st"
  "static_wait (dynamic_tick env st) = static_wait st"
  "calls (dynamic_tick env st) = calls st @ [Game_state_dynamic_tick]"
  "world (dynamic_tick env st) = ext env Game_state_dynamic_tick (world st)"
  "dynamic_wait (dynamic_tick env st) = dynamic_wait st
     - game_state_ms_per_dyntick env (ext env Game_state_dynamic_tick (world st))"
  by (simp_all add: dynamic_tick_def Let_def)

lemma dynamic_ticks_fields [simp]:
  "run ((dynamic_tick env ^^ n) st) = run st"
  "take_screenshot ((dynamic_tick env ^^ n) st) = take_screenshot st"
  "enable_screen_updates ((dynamic_tick env ^^ n) st) = enable_screen_updates st"
  "visual_debugger ((dynamic_tick env ^^ n) st) = visual_debugger st"
  "debugger_proceed ((dynamic_tick env ^^ n) st) = debugger_proceed st"
  "mouse_visible_ticks ((dynamic_tick env ^^ n) st) = mouse_visible_ticks st"
  "frame_start ((dynamic_tick env ^^ n) st) = frame_start st"
  "static_wait ((dynamic_tick env ^^ n) st) = static_wait st"
  by (induction n; simp)+

lemma dynamic_ticks_count:
  "count_list (calls ((dynamic_tick env ^^ n) st)) c = count_list (calls st) c
     + (if c = Game_state_dynamic_tick then n else 0)"
  by (induction n) auto

lemma dynamic_ticks_prefix: "prefix (calls st) (calls ((dynamic_tick env ^^ n) st))"
proof (induction n)
  case 0
  show ?case by simp
next
  case (Suc n)
  then show ?case by (auto simp: prefix_def)
qed

lemma dynamic_ticks_wait:
  assumes "\<forall>w. game_state_ms_per_dyntick env w = p"
  shows "dynamic_wait ((dynamic_tick env ^^ n) st) = dynamic_wait st - p * of_nat n"
  using assms by (induction n) (simp_all add: algebra_simps)

lemma drain_dynamic_Some:
  assumes "drain_dynamic env st = Some st'"
  shows "\<exists>n. st' = (dynamic_tick env ^^ n) st
           \<and> \<not> game_state_ms_per_dyntick env (world st') <s dynamic_wait st'"
  using assms
proof (induction env st st' rule: drain_dynamic.raw_induct)
  case (1 drain env st st')
  show ?case
  proof (cases "game_state_ms_per_dyntick env (world st) <s dynamic_wait st")
    case True
    with 1(2) have rest: "drain env (dynamic_tick env st) = Some st'" by simp
    from True 1(3) have "drain_dynamic env (dynamic_tick env st) = Some st'"
      by (simp add: drain_dynamic.simps [of env st])
    from 1(1) [OF rest this]
    obtain n where "st' = (dynamic_tick env ^^ n) (dynamic_tick env st)"
      and "\<not> game_state_ms_per_dyntick env (world st') <s dynamic_wait st'"
      by auto
    then have "st' = (dynamic_tick env ^^ Suc n) st
        \<and> \<not> game_state_ms_per_dyntick env (world st') <s dynamic_wait st'"
      by (simp add: funpow_swap1)
    then show ?thesis by blast
  next
    case False
    with 1(2) have "st' = (dynamic_tick env ^^ 0) st
        \<and> \<not> game_state_ms_per_dyntick env (world st') <s dynamic_wait st'"
      by simp
    then show ?thesis by blast
  qed
qed (rule assms)

lemma dynamic_passes_step:
  fixes a p :: int
  assumes "p < a" "0 < p"
  shows "nat ((a - 1) div p) = Suc (nat ((a - p - 1) div p))"
proof -
  have "(a - p - 1 + p) div p = (a - p - 1) div p + 1"
    using assms by (simp only: div_add_self2)
  then have "(a - 1) div p = (a - p - 1) div p + 1" by simp
  moreover have "0 \<le> (a - p - 1) div p"
    using assms by (simp add: pos_imp_zdiv_nonneg_iff)
  ultimately show ?thesis by simp
qed

lemma dynamic_passes_none:
  fixes a p :: int
  assumes "a \<le> p" "0 < p"
  shows "nat ((a - 1) div p) = 0"
proof -
  show ?thesis
  proof (cases "0 \<le> a - 1")
    case True
    with assms have "(a - 1) div p = 0" by (simp add: div_pos_pos_trivial)
    then show ?thesis by simp
  next
    case False
    with assms have "(a - 1) div p < 0" by (simp add: pos_imp_zdiv_neg_iff)
    then show ?thesis by simp
  qed
qed

lemma drain_dynamic_constant:
  assumes period: "\<forall>w. game_state_ms_per_dyntick env w = p" and pos: "0 <s p"
  shows "drain_dynamic env st
     = Some ((dynamic_tick env ^^ nat ((sint (dynamic_wait st) - 1) div sint p)) st)"
proof (induction "nat (sint (dynamic_wait st))" arbitrary: st rule: less_induct)
  case less
  from pos have p0: "0 < sint p" by (simp add: word_sless_alt)
  show ?case
  proof (cases "p <s dynamic_wait st")
    case True
    then have lt: "sint p < sint (dynamic_wait st)" by (simp add: word_sless_alt)
    have dw: "dynamic_wait (dynamic_tick env st) = dynamic_wait st - p"
      using period by simp
    have "sint (dynamic_wait st - p) = sint (dynamic_wait st) - sint p"
      using lt p0 sint_range [of "dynamic_wait st"] sint_range [of p]
      by (intro sint_sub) simp_all
    with dw have s: "sint (dynamic_wait (dynamic_tick env st)) = sint (dynamic_wait st) - sint p"
      by simp
    with lt p0 have "nat (sint (dynamic_wait (dynamic_tick env st))) < nat (sint (dynamic_wait st))"
      by simp
    from less [OF this] s have "drain_dynamic env (dynamic_tick env st)
       = Some ((dynamic_tick env ^^ nat ((sint (dynamic_wait st) - sint p - 1) div sint p))
                 (dynamic_tick env st))"
      by simp
    with True period dynamic_passes_step [OF lt p0] show ?thesis
      by (simp add: drain_dynamic.simps [of env st] funpow_swap1)
  next
    case False
    then have "sint (dynamic_wait st) \<le> sint p" by (simp add: word_sless_alt)
    from dynamic_passes_none [OF this p0] False period show ?thesis
      by (simp add: drain_dynamic.simps [of env st])
  qed
qed

lemma drain_dynamic_total:
  assumes pos: "\<forall>w. 0 <s game_state_ms_per_dyntick env w"
  shows "\<exists>st'. drain_dynamic env st = Some st'"
proof (induction "nat (sint (dynamic_wait st))" arbitrary: st rule: less_induct)
  case less
  show ?case
  proof (cases "game_state_ms_per_dyntick env (world st) <s dynamic_wait st")
    case True
    define p where "p = game_state_ms_per_dyntick env (world st)"
    define q where "q = game_state_ms_per_dyntick env (ext env Game_state_dynamic_tick (world st))"
    from pos have p0: "0 < sint p" and q0: "0 < sint q"
      by (simp_all add: word_sless_alt p_def q_def)
    from True have lt: "sint p < sint (dynamic_wait st)"
      by (simp add: word_sless_alt p_def)
    have "sint (dynamic_wait st - q) = sint (dynamic_wait st) - sint q"
      using lt p0 q0 sint_range [of "dynamic_wait st"] sint_range [of q]
      by (intro sint_sub) simp_all
    then have "sint (dynamic_wait (dynamic_tick env st)) = sint (dynamic_wait st) - sint q"
      by (simp add: q_def)
    with lt p0 q0 have "nat (sint (dynamic_wait (dynamic_tick env st))) < nat (sint (dynamic_wait st))"
      by simp
    from less [OF this] True show ?thesis
      by (simp add: drain_dynamic.simps [of env st])
  next
    case False
    then show ?thesis by (simp add: drain_dynamic.simps [of env st])
  qed
qed

section \<open>Output\<close>

lemma write_screenshot_fields [simp]:
  "run (write_screenshot env inp st) = run st"
  "take_screenshot (write_screenshot env inp st) = take_screenshot st"
  "enable_screen_updates (write_screenshot env inp st) = enable_screen_updates st"
  "visual_debugger (write_screenshot env inp st) = visual_debugger st"
  "debugger_proceed (write_screenshot env inp st) = debugger_proceed st"
  "mouse_visible_ticks (write_screenshot env inp st) = mouse_visible_ticks st"
  "frame_start (write_screenshot env inp st) = frame_start st"
  "dynamic_wait (write_screenshot env inp st) = dynamic_wait st"
  "static_wait (write_screenshot env inp st) = static_wait st"
  by (simp_all add: write_screenshot_def Let_def case_prod_beta)

lemma write_screenshot_calls:
  "calls (write_screenshot env inp st) = calls st @
     (if image_supports_png env (world st) \<noteq> 0 then
        [Image_write_png (screenshot_name (ticks_shot inp) ''.png''),
         if ret env (Image_write_png (screenshot_name (ticks_shot inp) ''.png'')) (world st)
              \<noteq> 0
         then PERROR (''Screenshot write operation failed (''
                      @ screenshot_name (ticks_shot inp) ''.png'' @ '')'')
         else DEBUG (''Got a screenshot: '' @ screenshot_name (ticks_shot inp) ''.png'')]
      else
        [Image_write_tga (screenshot_name (ticks_shot inp) ''.tga''),
         if ret env (Image_write_tga (screenshot_name (ticks_shot inp) ''.tga'')) (world st)
              \<noteq> 0
         then PERROR (''Screenshot write operation failed (''
                      @ screenshot_name (ticks_shot inp) ''.tga'' @ '')'')
         else DEBUG (''Got a screenshot: '' @ screenshot_name (ticks_shot inp) ''.tga'')])"
  by (simp add: write_screenshot_def Let_def case_prod_beta)

lemma service_screenshot_fields [simp]:
  "run (service_screenshot env inp st) = run st"
  "enable_screen_updates (service_screenshot env inp st) = enable_screen_updates st"
  "visual_debugger (service_screenshot env inp st) = visual_debugger st"
  "debugger_proceed (service_screenshot env inp st) = debugger_proceed st"
  "mouse_visible_ticks (service_screenshot env inp st) = mouse_visible_ticks st"
  "frame_start (service_screenshot env inp st) = frame_start st"
  "dynamic_wait (service_screenshot env inp st) = dynamic_wait st"
  "static_wait (service_screenshot env inp st) = static_wait st"
  "take_screenshot (service_screenshot env inp st) = 0"
  by (simp_all add: service_screenshot_def Let_def case_prod_beta)

lemma service_screenshot_calls:
  "calls (service_screenshot env inp st) = calls st @
     (if take_screenshot st \<noteq> 0 then
        Video_screenshot #
        (if ret env Video_screenshot (world st) = 0
         then made (call_void env Video_screenshot st)
                (write_screenshot env inp (call_void env Video_screenshot st))
         else [])
        @ [Image_free]
      else [])"
  by (simp add: service_screenshot_def Let_def case_prod_beta write_screenshot_calls)

lemma service_screenshot_count:
  "count_list (calls (service_screenshot env inp st)) Video_screenshot =
     count_list (calls st) Video_screenshot + (if take_screenshot st \<noteq> 0 then 1 else 0)"
  "\<not> from_render c \<Longrightarrow>
     count_list (calls (service_screenshot env inp st)) c = count_list (calls st) c"
  by (cases c; simp add: service_screenshot_calls write_screenshot_calls)+

lemma render_fields [simp]:
  "run (render env inp st) = run st"
  "enable_screen_updates (render env inp st) = enable_screen_updates st"
  "visual_debugger (render env inp st) = visual_debugger st"
  "debugger_proceed (render env inp st) = debugger_proceed st"
  "mouse_visible_ticks (render env inp st) = mouse_visible_ticks st"
  "frame_start (render env inp st) = frame_start st"
  "dynamic_wait (render env inp st) = dynamic_wait st"
  "static_wait (render env inp st) = static_wait st"
  "take_screenshot (render env inp st) =
     (if enable_screen_updates st \<noteq> 0 then 0 else take_screenshot st)"
  by (simp_all add: render_def Let_def)

lemma render_prefix: "prefix (calls st) (calls (render env inp st))"
  by (simp add: render_def Let_def service_screenshot_calls prefix_def)

lemma render_count:
  "count_list (calls (render env inp st)) Video_screenshot =
     count_list (calls st) Video_screenshot
     + (if enable_screen_updates st \<noteq> 0 \<and> take_screenshot st \<noteq> 0 then 1 else 0)"
  "\<not> from_render c \<Longrightarrow> count_list (calls (render env inp st)) c = count_list (calls st) c"
  by (cases c; simp add: render_def Let_def service_screenshot_count)+

section \<open>One callback\<close>

lemma occurs_prefix:
  "prefix (calls st) (calls st') \<Longrightarrow>
     count_list (calls st') c = count_list (calls st) c + occurs c st st'"
  by (auto simp: prefix_def occurs_def made_def)

lemma occurs_same [simp]: "occurs c st st = 0"
  by (simp add: occurs_def made_def)


lemma advance_fields [simp]:
  "frame_start (advance env inp st) = ticks_start inp"
  "run (advance env inp st) = (if SDL_QUIT \<in> set (events inp) then 0 else run st)"
  "take_screenshot (advance env inp st)
     = (if 0 < key_presses SDLK_F1 (events inp) then 1 else take_screenshot st)"
  by (simp_all add: advance_def Let_def poll_events_run poll_events_take_screenshot)


lemma advance_elapsed:
  assumes "key_presses SDLK_F5 (events inp) = 0" "visual_debugger st = 0"
  shows "visual_debugger (advance env inp st) = 0"
    and "static_wait (advance env inp st) = static_wait st + (ticks_dt inp - frame_start st)"
    and "dynamic_wait (advance env inp st) = dynamic_wait st + (ticks_dt inp - frame_start st)"
  using assms
  by (simp_all add: advance_def Let_def poll_events_visual_debugger accumulate_waits)


lemma advance_prefix: "prefix (calls st) (calls (advance env inp st))"
  using poll_events_prefix [of st env "events inp"]
  by (auto simp: advance_def Let_def hide_mouse_calls prefix_def)

lemma advance_count:
  assumes "\<not> from_events c" "c \<noteq> SDL_ShowCursor 0" "c \<noteq> Game_state_tick_controllers"
  shows "count_list (calls (advance env inp st)) c = count_list (calls st) c"
  using assms by (simp add: advance_def Let_def hide_mouse_calls poll_events_count)

lemma schedule_Some:
  assumes "schedule env inp st = Some st'"
  obtains n where "st' = (dynamic_tick env ^^ n) (drain_static env (advance env inp st))"
    and "\<not> game_state_ms_per_dyntick env (world st') <s dynamic_wait st'"
  using assms drain_dynamic_Some [of env "drain_static env (advance env inp st)" st']
  by (auto simp: schedule_def)

lemma engine_loop_Some:
  assumes "\<not> stopped env st" "engine_loop env inp st = Some st'"
  obtains s where "schedule env inp st = Some s" "st' = render env inp s"
  using assms by (auto simp: engine_loop_def split: option.splits)

lemma engine_loop_stopped:
  "stopped env st \<Longrightarrow> engine_loop env inp st = Some (call_void env Emscripten_cancel_main_loop st)"
  by (simp add: engine_loop_def)

lemma drain_static_count:
  "count_list (calls (drain_static env st)) c = count_list (calls st) c
     + (if c \<in> {Game_state_static_tick, Console_tick, Video_tick}
        then nat ((sint (static_wait st) - 1) div 10) else 0)"
  by (simp only: drain_static_is static_ticks_count)

lemma drain_static_prefix: "prefix (calls st) (calls (drain_static env st))"
  by (simp only: drain_static_is static_ticks_prefix)

lemma drain_static_wait:
  "static_wait (drain_static env st)
     = static_wait st - 10 * of_nat (nat ((sint (static_wait st) - 1) div 10))"
  by (simp only: drain_static_is static_ticks_wait)

lemma schedule_prefix:
  assumes "schedule env inp st = Some st'"
  shows "prefix (calls st) (calls st')"
proof -
  from assms obtain n
    where st': "st' = (dynamic_tick env ^^ n) (drain_static env (advance env inp st))"
    by (rule schedule_Some)
  show ?thesis
    unfolding st'
    by (rule prefix_order.trans [OF advance_prefix
          prefix_order.trans [OF drain_static_prefix dynamic_ticks_prefix]])
qed

lemma engine_loop_prefix:
  assumes "engine_loop env inp st = Some st'"
  shows "prefix (calls st) (calls st')"
proof (cases "stopped env st")
  case True
  with assms show ?thesis by (auto simp: engine_loop_stopped prefix_def)
next
  case False
  from False assms obtain s where "schedule env inp st = Some s" "st' = render env inp s"
    by (rule engine_loop_Some)
  then show ?thesis
    using prefix_order.trans [OF schedule_prefix render_prefix] by simp
qed


lemma occurs_count:
  "prefix (calls st) (calls st') \<Longrightarrow>
     occurs c st st' = count_list (calls st') c - count_list (calls st) c"
  by (simp add: occurs_prefix)

lemmas loop_defs = engine_loop_def stopped_def schedule_def advance_def hide_mouse_def
  accumulate_def static_tick_def dynamic_tick_def render_def service_screenshot_def
  write_screenshot_def handle_event_def dispatch_event_def

section \<open>Handlers, run state\<close>





lemma engine_loop_run:
  assumes "engine_loop env inp st = Some st'"
  shows "run st' = (if \<not> stopped env st \<and> SDL_QUIT \<in> set (events inp) then 0 else run st)"
proof (cases "stopped env st")
  case True
  with assms show ?thesis by (auto simp: engine_loop_stopped)
next
  case False
  from False assms obtain s where s: "schedule env inp st = Some s" "st' = render env inp s"
    by (rule engine_loop_Some)
  from s(1) obtain n
    where "s = (dynamic_tick env ^^ n) (drain_static env (advance env inp st))"
    by (rule schedule_Some)
  with s(2) False show ?thesis by simp
qed

lemma engine_loops_run:
  "run st = 0 \<Longrightarrow> engine_loops env inps st = Some st' \<Longrightarrow> run st' = 0"
proof (induction inps arbitrary: st)
  case Nil
  then show ?case by simp
next
  case (Cons inp inps)
  from Cons.prems obtain s
    where s: "engine_loop env inp st = Some s" "engine_loops env inps s = Some st'"
    by (auto split: option.splits)
  from engine_loop_run [OF s(1)] Cons.prems(1) have "run s = 0" by (simp split: if_splits)
  from Cons.IH [OF this s(2)] show ?case .
qed


section \<open>Successive callbacks\<close>















section \<open>Assignments to \<open>run\<close>\<close>

lemma window_event_writes [simp]:
  "run_writes (window_event env w st) = run_writes st"
  "start_timeout (window_event env w st) = start_timeout st"
  by (cases w; simp add: case_prod_beta Let_def)+

lemma event_switch_writes [simp]:
  "run_writes (event_switch env e st) = run_writes st @ (if e = SDL_QUIT then [0] else [])"
  by (cases e; simp add: Let_def)

lemma dispatch_event_writes [simp]:
  "run_writes (dispatch_event env e st) = run_writes st"
  by (simp add: dispatch_event_def)

lemma console_events_writes [simp]:
  "run_writes (console_events env e st) = run_writes st"
  by (cases e; simp)

lemma handle_event_writes [simp]:
  "run_writes (handle_event env e st) = run_writes st @ (if e = SDL_QUIT then [0] else [])"
  by (simp add: handle_event_def)


lemma hide_mouse_writes [simp]: "run_writes (hide_mouse env inp st) = run_writes st"
  by (simp add: hide_mouse_def Let_def)

lemma accumulate_writes [simp]: "run_writes (accumulate inp st) = run_writes st"
  by (simp add: accumulate_def Let_def)


lemma static_tick_writes [simp]: "run_writes (static_tick env st) = run_writes st"
  by (simp add: static_tick_def Let_def)

lemma static_ticks_writes [simp]: "run_writes ((static_tick env ^^ n) st) = run_writes st"
  by (induction n) simp_all

lemma drain_static_writes [simp]: "run_writes (drain_static env st) = run_writes st"
  by (simp add: drain_static_is)

lemma dynamic_tick_writes [simp]: "run_writes (dynamic_tick env st) = run_writes st"
  by (simp add: dynamic_tick_def Let_def)

lemma dynamic_ticks_writes [simp]: "run_writes ((dynamic_tick env ^^ n) st) = run_writes st"
  by (induction n) simp_all

lemma write_screenshot_writes [simp]:
  "run_writes (write_screenshot env inp st) = run_writes st"
  by (simp add: write_screenshot_def Let_def case_prod_beta)

lemma service_screenshot_writes [simp]:
  "run_writes (service_screenshot env inp st) = run_writes st"
  by (simp add: service_screenshot_def Let_def case_prod_beta)

lemma render_writes [simp]: "run_writes (render env inp st) = run_writes st"
  by (simp add: render_def Let_def)







lemma engine_close_fields [simp]:
  "run (engine_close env st) = run st"
  "run_writes (engine_close env st) = run_writes st"
  by (simp_all add: engine_close_def Let_def)





















section \<open>Initialization\<close>

text \<open>
  C2. Let \<open>cs\<close> be the calls that \<open>engine_init\<close> makes, \<open>n\<close> the number of \<open>init\<close> calls
  among them and \<open>rs\<close> what these returned. The \<open>init\<close> calls are those of the first \<open>n\<close>
  subsystems in the order rendering, audio, resource loader, localization, font cache,
  palette cache, console; all but the last returned 0 (success), so no \<open>init\<close> follows a
  failed one; \<open>engine_init\<close> returns 0 exactly when the last one succeeded too, and then
  all seven were initialized, nothing is closed and \<open>run\<close> is 1. Otherwise it returns 1,
  the \<open>close\<close> calls are those of the \<open>n - 1\<close> subsystems that had succeeded, in reverse
  order (none for the failed and the unreached ones), no \<open>init\<close> comes after the first
  \<open>close\<close>, and \<open>run\<close> is what it was (0 at program start).
\<close>

theorem engine_init_unwinds:
  assumes "engine_init env setting st = (r, st')"
  shows "let cs = made st st'; n = length (inits cs); rs = init_results env (world st) cs in
    0 < n \<and> inits cs = take n subsystems \<and> length rs = n \<and> butlast rs = replicate (n - 1) 0
    \<and> (r = 0 \<longleftrightarrow> last rs = 0) \<and> (last rs = 0 \<longrightarrow> n = 7)
    \<and> closes cs = (if r = 0 then [] else rev (take (n - 1) subsystems))
    \<and> inits (dropWhile (\<lambda>c. close_of c = None) cs) = []
    \<and> (r = 0 \<or> r = 1) \<and> run st' = (if r = 0 then 1 else run st)"
  using assms
  by (auto simp: engine_init_def resolve_sink_def call_int_def exits Let_def inits_def closes_def
      subsystems_def List.map_filter_simps
      split: if_splits option.splits prod.splits)

theorem engine_init_unwinds_witness:
  "fst (engine_init fonts_fail_env pulse program_start) = 1
   \<and> inits (made program_start (snd (engine_init fonts_fail_env pulse program_start)))
       = [Rendering, Audio, Resource_loader, Localization, Font_cache]
   \<and> closes (made program_start (snd (engine_init fonts_fail_env pulse program_start)))
       = [Localization, Resource_loader, Audio, Rendering]
   \<and> run (snd (engine_init fonts_fail_env pulse program_start)) = 0"
  using engine_init_unwinds [of fonts_fail_env pulse program_start
      "fst (engine_init fonts_fail_env pulse program_start)"
      "snd (engine_init fonts_fail_env pulse program_start)"]
  by (simp add: engine_init_def resolve_sink_def call_int_def exits Let_def inits_def closes_def
      subsystems_def concrete List.map_filter_simps)






section \<open>The drain passes\<close>

text \<open>
  C1, as the code has it. When lines 134 to 256 of a callback return, the static
  accumulator is at most 10 ms and the dynamic accumulator at most the dynamic period of
  the moment: both loops run while the accumulator is greater than the period, so a
  residual equal to the period stays. With \<open>a\<close> the static accumulator after line 237, the
  static tick has run \<open>(a - 1) div 10\<close> times (no time for \<open>a \<le> 0\<close>) and 10 ms were taken
  off for each. When the dynamic period is a constant \<open>p > 0\<close> the passes return, the
  dynamic tick has run \<open>(a - 1) div p\<close> times for the dynamic accumulator \<open>a\<close> after line
  237, and \<open>p\<close> was taken off for each. The passes return whenever the dynamic period
  is positive.
\<close>


theorem drain_passes:
  "(schedule env inp st = Some st' \<longrightarrow>
      static_wait st' \<le>s 10
      \<and> dynamic_wait st' \<le>s game_state_ms_per_dyntick env (world st')
      \<and> occurs Game_state_static_tick st st'
          = nat ((sint (static_wait (advance env inp st)) - 1) div 10)
      \<and> static_wait st' = static_wait (advance env inp st)
          - 10 * of_nat (occurs Game_state_static_tick st st'))
   \<and> ((\<forall>w. game_state_ms_per_dyntick env w = p) \<and> 0 <s p \<longrightarrow>
        (\<exists>s. schedule env inp st = Some s
           \<and> occurs Game_state_dynamic_tick st s
               = nat ((sint (dynamic_wait (advance env inp st)) - 1) div sint p)
           \<and> dynamic_wait s = dynamic_wait (advance env inp st)
               - p * of_nat (occurs Game_state_dynamic_tick st s)))
   \<and> ((\<forall>w. 0 <s game_state_ms_per_dyntick env w) \<longrightarrow> (\<exists>s. schedule env inp st = Some s))"
proof (intro conjI impI)
  assume "\<forall>w. 0 <s game_state_ms_per_dyntick env w"
  from drain_dynamic_total [OF this] show "\<exists>s. schedule env inp st = Some s"
    by (simp add: schedule_def)
next
  assume some: "schedule env inp st = Some st'"
  then obtain n
    where st': "st' = (dynamic_tick env ^^ n) (drain_static env (advance env inp st))"
      and stop: "\<not> game_state_ms_per_dyntick env (world st') <s dynamic_wait st'"
    by (rule schedule_Some)
  show "static_wait st' \<le>s 10"
    by (simp add: st' drain_static_bound)
  from stop show "dynamic_wait st' \<le>s game_state_ms_per_dyntick env (world st')"
    by (simp add: word_sless_alt word_sle_eq)
  have "count_list (calls st') Game_state_static_tick
      = count_list (calls st) Game_state_static_tick
        + nat ((sint (static_wait (advance env inp st)) - 1) div 10)"
    by (simp add: st' dynamic_ticks_count drain_static_count advance_count)
  then show ticks: "occurs Game_state_static_tick st st'
      = nat ((sint (static_wait (advance env inp st)) - 1) div 10)"
    by (simp add: occurs_count [OF schedule_prefix [OF some]])
  show "static_wait st' = static_wait (advance env inp st)
          - 10 * of_nat (occurs Game_state_static_tick st st')"
    by (simp only: ticks) (simp add: st' drain_static_wait)
next
  assume "(\<forall>w. game_state_ms_per_dyntick env w = p) \<and> 0 <s p"
  then have period: "\<forall>w. game_state_ms_per_dyntick env w = p" and pos: "0 <s p"
    by simp_all
  define s0 where "s0 = drain_static env (advance env inp st)"
  define n where "n = nat ((sint (dynamic_wait (advance env inp st)) - 1) div sint p)"
  define s where "s = (dynamic_tick env ^^ n) s0"
  have some: "schedule env inp st = Some s"
    using drain_dynamic_constant [OF period pos, of s0]
    by (simp add: schedule_def s_def n_def s0_def)
  have "count_list (calls s) Game_state_dynamic_tick
      = count_list (calls st) Game_state_dynamic_tick + n"
    by (simp add: s_def s0_def dynamic_ticks_count drain_static_count advance_count)
  then have ticks: "occurs Game_state_dynamic_tick st s = n"
    by (simp add: occurs_count [OF schedule_prefix [OF some]])
  have "dynamic_wait s = dynamic_wait (advance env inp st) - p * of_nat n"
    by (simp add: s_def s0_def dynamic_ticks_wait [OF period])
  with some ticks
  show "\<exists>s. schedule env inp st = Some s
           \<and> occurs Game_state_dynamic_tick st s
               = nat ((sint (dynamic_wait (advance env inp st)) - 1) div sint p)
           \<and> dynamic_wait s = dynamic_wait (advance env inp st)
               - p * of_nat (occurs Game_state_dynamic_tick st s)"
    by (simp add: n_def)
qed

text \<open>C1 as stated fails: after a single callback with 10 ms elapsed and empty accumulators
  the static accumulator is 10, not less than 10, and no static tick has run although
  \<open>10 div 10 = 1\<close>.\<close>

theorem drain_passes_counterexample:
  "schedule plain_env (frame [] 10) running \<noteq> None
   \<and> \<not> static_wait (the (schedule plain_env (frame [] 10) running)) <s 10
   \<and> occurs Game_state_static_tick running (the (schedule plain_env (frame [] 10) running))
       \<noteq> 10 div 10"
  by (simp add: loop_defs concrete drain_static.simps drain_dynamic.simps Let_def
      call_void_def occurs_def made_def)

theorem drain_passes_witness:
  "(\<forall>w. game_state_ms_per_dyntick plain_env w = 16) \<and> 0 <s (16 :: c_int)
   \<and> schedule plain_env (frame [] 37) running \<noteq> None
   \<and> static_wait (the (schedule plain_env (frame [] 37) running)) \<le>s 10
   \<and> occurs Game_state_static_tick running (the (schedule plain_env (frame [] 37) running)) = 3
   \<and> occurs Game_state_dynamic_tick running (the (schedule plain_env (frame [] 37) running)) = 2"
proof -
  have period: "\<forall>w. game_state_ms_per_dyntick plain_env w = 16"
    by (simp add: plain_env_def)
  have pos: "0 <s (16 :: c_int)"
    by (simp add: word_sless_alt)
  have waits: "static_wait (advance plain_env (frame [] 37) running) = 37"
    "dynamic_wait (advance plain_env (frame [] 37) running) = 37"
    by (simp_all add: advance_elapsed key_presses_def concrete)
  from drain_passes [of plain_env "frame [] 37" running _ 16] period pos
  obtain s where s: "schedule plain_env (frame [] 37) running = Some s"
    and dynamic: "occurs Game_state_dynamic_tick running s = 2"
    by (auto simp: waits)
  from drain_passes [of plain_env "frame [] 37" running s 16] s
  have "static_wait s \<le>s 10" "occurs Game_state_static_tick running s = 3"
    by (simp_all add: waits)
  with period pos s dynamic show ?thesis by simp
qed


text \<open>
  C3. A callback that is not stopped, with the visual debugger off, empty accumulators,
  37 ms elapsed and a dynamic period of 16 ms returns; the static tick, the console tick
  and the video tick have each run 3 times and the static accumulator holds 7 ms; the
  dynamic tick has run twice and the dynamic accumulator holds 5 ms.
\<close>


theorem scenario_37_ms:
  assumes run: "\<not> stopped env st"
    and debugger: "visual_debugger st = 0" "key_presses SDLK_F5 (events inp) = 0"
    and empty: "static_wait st = 0" "dynamic_wait st = 0"
    and delta: "ticks_dt inp - frame_start st = 37"
    and period: "\<forall>w. game_state_ms_per_dyntick env w = 16"
  shows "\<exists>st'. engine_loop env inp st = Some st'
    \<and> occurs Game_state_static_tick st st' = 3 \<and> occurs Console_tick st st' = 3
    \<and> occurs Video_tick st st' = 3 \<and> static_wait st' = 7
    \<and> occurs Game_state_dynamic_tick st st' = 2 \<and> dynamic_wait st' = 5"
proof -
  define s0 where "s0 = advance env inp st"
  define s1 where "s1 = (static_tick env ^^ 3) s0"
  define s2 where "s2 = (dynamic_tick env ^^ 2) s1"
  define st' where "st' = render env inp s2"
  have waits: "static_wait s0 = 37" "dynamic_wait s0 = 37"
    using advance_elapsed [OF debugger(2,1), of env] empty delta by (simp_all add: s0_def)
  have static: "drain_static env s0 = s1"
    by (simp add: drain_static_is waits s1_def)
  have "dynamic_wait s1 = 37" by (simp add: s1_def waits)
  then have dynamic: "drain_dynamic env s1 = Some s2"
    using drain_dynamic_constant [OF period, of s1] by (simp add: s2_def word_sless_alt)
  have some: "engine_loop env inp st = Some st'"
    using run by (simp add: engine_loop_def schedule_def s0_def [symmetric] static dynamic st'_def)
  have count: "count_list (calls st') c = count_list (calls st) c
      + (if c \<in> {Game_state_static_tick, Console_tick, Video_tick} then 3 else 0)
      + (if c = Game_state_dynamic_tick then 2 else 0)"
    if "c \<in> {Game_state_static_tick, Console_tick, Video_tick, Game_state_dynamic_tick}" for c
    using that
    by (auto simp: st'_def s2_def s1_def s0_def render_count dynamic_ticks_count
        static_ticks_count advance_count)
  have "occurs Game_state_static_tick st st' = 3" "occurs Console_tick st st' = 3"
    "occurs Video_tick st st' = 3" "occurs Game_state_dynamic_tick st st' = 2"
    by (simp_all add: occurs_count [OF engine_loop_prefix [OF some]] count)
  moreover have "static_wait st' = 7"
    by (simp add: st'_def s2_def s1_def static_ticks_wait waits)
  moreover have "dynamic_wait st' = 5"
    by (simp add: st'_def s2_def dynamic_ticks_wait [OF period] s1_def waits)
  ultimately show ?thesis using some by blast
qed

theorem scenario_37_ms_witness:
  "\<not> stopped plain_env running \<and> visual_debugger running = 0
   \<and> key_presses SDLK_F5 (events (frame [] 37)) = 0
   \<and> static_wait running = 0 \<and> dynamic_wait running = 0
   \<and> ticks_dt (frame [] 37) - frame_start running = 37
   \<and> (\<forall>w. game_state_ms_per_dyntick plain_env w = 16)
   \<and> static_wait (the (engine_loop plain_env (frame [] 37) running)) = 7
   \<and> dynamic_wait (the (engine_loop plain_env (frame [] 37) running)) = 5
   \<and> occurs Game_state_static_tick running (the (engine_loop plain_env (frame [] 37) running)) = 3
   \<and> occurs Game_state_dynamic_tick running (the (engine_loop plain_env (frame [] 37) running)) = 2"
  using scenario_37_ms [of plain_env running "frame [] 37"]
  by (auto simp: stopped_def concrete key_presses_def)


section \<open>Event routing\<close>





section \<open>Screenshots\<close>

text \<open>Servicing a pending request calls \<open>video_screenshot\<close>. If that succeeds, the image is
  written to \<open>screenshot_<ticks>.png\<close> when PNG is supported and to
  \<open>screenshot_<ticks>.tga\<close> otherwise, and the outcome is logged: an error line when the
  write fails, a debug line when it succeeds. In every case \<open>image_free\<close> is the last
  call, the request is cleared and \<open>run\<close> is untouched, by the service and by the whole
  output step.\<close>

lemma screenshot_service:
  assumes "take_screenshot st \<noteq> 0"
  shows "made st (service_screenshot env inp st) =
      Video_screenshot #
      (if ret env Video_screenshot (world st) = 0 then
         (let w = ext env Video_screenshot (world st);
              name = ''screenshot_'' @ decimal (unat (ticks_shot inp))
                     @ (if image_supports_png env w \<noteq> 0 then ''.png'' else ''.tga'');
              write = (if image_supports_png env w \<noteq> 0 then Image_write_png name
                       else Image_write_tga name)
          in [write,
              if ret env write w \<noteq> 0
              then PERROR (''Screenshot write operation failed ('' @ name @ '')'')
              else DEBUG (''Got a screenshot: '' @ name)])
       else [])
      @ [Image_free]
    \<and> take_screenshot (service_screenshot env inp st) = 0
    \<and> run (service_screenshot env inp st) = run st
    \<and> run (render env inp st) = run st"
  using assms
  by (simp add: service_screenshot_calls write_screenshot_calls screenshot_name_def Let_def)



section \<open>Run state\<close>





section \<open>Single steps in the visual debugger\<close>




section \<open>The cursor countdown\<close>




section \<open>A screenshot asked for while the screen is off\<close>



end
